theory Spec2Isabelle
  imports Complex_Main
begin

section \<open>Computer-use actions of the Browserbase MCP server\<close>

text \<open>
  The development embeds \<^verbatim>\<open>computerUse.ts\<close>: the helper
  \<^verbatim>\<open>takeAndRegisterScreenshot\<close> and the nine tools built on it (screenshot, click,
  double click, scroll, type, wait, move, keypress, drag), with their zod input schemas.

  The browser page, the clock, the protocol server and the context are collaborators of
  the module. They are modelled as an environment (what each call answers) and a state
  (what has been called so far, and what has been stored):
  \<^item> every \<^verbatim>\<open>await page.xxx(...)\<close> is a \<open>call\<close> appended to the \<open>trace\<close>; whether it
    rejects, and with what, is read from the \<open>outcome\<close> oracle of the environment, which
    sees the calls made before it;
  \<^item> a thrown JavaScript value is a \<open>js_thrown\<close>; an asynchronous function that may throw
    returns \<open>js_thrown + 'a\<close> together with the new state;
  \<^item> JavaScript numbers that passed \<^verbatim>\<open>z.number().int()\<close> are \<open>int\<close>, and a template
    literal renders them in decimal (as JavaScript does below \<open>10\<^sup>2\<^sup>1\<close>);
  \<^item> strings are \<open>string\<close>, and \<^verbatim>\<open>.length\<close> is the length of the list.
\<close>

subsection \<open>Values\<close>

datatype button = BLeft | BRight | BMiddle

datatype point = Point (ptX: int) (ptY: int)

text \<open>
  A thrown value is either an \<^verbatim>\<open>Error\<close> with its message, or some other value, kept
  as what \<^verbatim>\<open>String(error)\<close> makes of it.
\<close>

datatype js_thrown = JsError string | JsOther string

datatype content =
    TextContent string
  | ImageContent (imageData: string) (mimeType: string)

text \<open>The calls the module makes on its collaborators.\<close>

datatype call =
    PageScreenshot bool
  | MouseClick int int button
  | MouseDblclick int int
  | MouseMove int int
  | MouseWheel int int
  | MouseDown
  | MouseUp
  | KeyboardType string "int option"
  | KeyboardPress string
  | WaitForTimeout int
  | Notification string

record resource =
  resSession :: string
  resName :: string
  resData :: string

datatype page_result = PageThrows js_thrown | PageNull | PageOk

record env =
  getActivePage :: page_result
  currentSessionId :: string
  getServer :: bool
  outcome :: "call list \<Rightarrow> call \<Rightarrow> js_thrown option"
  screenshotBase64 :: "call list \<Rightarrow> string"
  toISOString :: "call list \<Rightarrow> string"
  notificationSettles :: "call list \<Rightarrow> js_thrown option"

record state =
  trace :: "call list"
  resources :: "resource list"
  unhandled :: "js_thrown list"

type_synonym 'a io = "state \<Rightarrow> (js_thrown + 'a) \<times> state"

subsection \<open>Control flow: return, throw, await in sequence, try/catch, for-of\<close>

definition returnIO :: "'a \<Rightarrow> 'a io" where
  "returnIO v s = (Inr v, s)"

definition throwIO :: "js_thrown \<Rightarrow> 'a io" where
  "throwIO err s = (Inl err, s)"

definition bindIO :: "'a io \<Rightarrow> ('a \<Rightarrow> 'b io) \<Rightarrow> 'b io" where
  "bindIO m f s = (case m s of (Inl err, s') \<Rightarrow> (Inl err, s') | (Inr v, s') \<Rightarrow> f v s')"

definition tryCatch :: "'a io \<Rightarrow> (js_thrown \<Rightarrow> 'a io) \<Rightarrow> 'a io" where
  "tryCatch m h s = (case m s of (Inl err, s') \<Rightarrow> h err s' | (Inr v, s') \<Rightarrow> (Inr v, s'))"

fun forEach :: "'a list \<Rightarrow> ('a \<Rightarrow> unit io) \<Rightarrow> unit io" where
  "forEach [] f = returnIO ()"
| "forEach (v # vs) f = bindIO (f v) (\<lambda>_. forEach vs f)"

subsection \<open>Strings\<close>

definition digitChar :: "nat \<Rightarrow> char" where
  "digitChar d = ''0123456789'' ! d"

fun showNat :: "nat \<Rightarrow> string" where
  "showNat n = (if n < 10 then [digitChar n] else showNat (n div 10) @ [digitChar (n mod 10)])"

declare showNat.simps [simp del]

definition showInt :: "int \<Rightarrow> string" where
  "showInt i = (if i < 0 then CHR ''-'' # showNat (nat (- i)) else showNat (nat i))"

text \<open>\<^verbatim>\<open>keys.join(", ")\<close>\<close>

fun join :: "string \<Rightarrow> string list \<Rightarrow> string" where
  "join sep [] = []"
| "join sep [v] = v"
| "join sep (v # w # vs) = v @ sep @ join sep (w # vs)"

text \<open>\<^verbatim>\<open>.replace(/:/g, "-")\<close>\<close>

definition replaceColons :: "string \<Rightarrow> string" where
  "replaceColons = map (\<lambda>c. if c = CHR '':'' then CHR ''-'' else c)"

definition buttonName :: "button \<Rightarrow> string" where
  "buttonName b = (case b of BLeft \<Rightarrow> ''left'' | BRight \<Rightarrow> ''right'' | BMiddle \<Rightarrow> ''middle'')"

text \<open>\<^verbatim>\<open>error instanceof Error ? error.message : String(error)\<close>\<close>

definition errorMessage :: "js_thrown \<Rightarrow> string" where
  "errorMessage err = (case err of JsError m \<Rightarrow> m | JsOther v \<Rightarrow> v)"

text \<open>The catch block of an action: \<^verbatim>\<open>throw new Error(`Failed to <verb>: ${msg}`)\<close>.\<close>

definition failedTo :: "string \<Rightarrow> js_thrown \<Rightarrow> 'a io" where
  "failedTo verb err = throwIO (JsError (''Failed to '' @ verb @ '': '' @ errorMessage err))"

subsection \<open>Collaborators\<close>

text \<open>An awaited call on the page: it is recorded, then it resolves or rejects.\<close>

definition invoke :: "env \<Rightarrow> call \<Rightarrow> unit io" where
  "invoke e c s =
     (case outcome e (trace s) c of
        Some err \<Rightarrow> (Inl err, s\<lparr>trace := trace s @ [c]\<rparr>)
      | None \<Rightarrow> (Inr (), s\<lparr>trace := trace s @ [c]\<rparr>))"

text \<open>
  \<^verbatim>\<open>const page = await context.getActivePage(); if (!page) throw new Error(...)\<close>
\<close>

definition activePage :: "env \<Rightarrow> unit io" where
  "activePage e =
     (case getActivePage e of
        PageThrows err \<Rightarrow> throwIO err
      | PageNull \<Rightarrow> throwIO (JsError ''No active page available'')
      | PageOk \<Rightarrow> returnIO ())"

text \<open>
  Modelled from the spec: \<^verbatim>\<open>registerScreenshot\<close> of \<^verbatim>\<open>../mcp/resources.js\<close>, which is
  not among the sources. The spec (4.2): register(sessionId, name, base64Payload) appends
  a Resource; it never overwrites and does not reject duplicates.
\<close>

definition registerScreenshot :: "string \<Rightarrow> string \<Rightarrow> string \<Rightarrow> unit io" where
  "registerScreenshot sessionId name base64 s =
     (Inr (), s\<lparr>resources := resources s @
        [\<lparr>resSession = sessionId, resName = name, resData = base64\<rparr>]\<rparr>)"

text \<open>
  \<^verbatim>\<open>serverInstance.notification({ method })\<close> returns a promise that the module does not
  await: the call is recorded and control goes on. The method of the protocol server is
  asynchronous, so a failure to send is a rejection of that promise; it reaches nobody,
  and the state keeps it in \<open>unhandled\<close>.
\<close>

definition notification :: "env \<Rightarrow> string \<Rightarrow> unit io" where
  "notification e method s =
     (Inr (), s\<lparr>trace := trace s @ [Notification method],
                unhandled := unhandled s @
                  (case notificationSettles e (trace s) of None \<Rightarrow> [] | Some err \<Rightarrow> [err])\<rparr>)"

subsection \<open>takeAndRegisterScreenshot\<close>

definition screenshotName :: "string \<Rightarrow> string \<Rightarrow> string" where
  "screenshotName namePrefix stamp = namePrefix @ ''-'' @ replaceColons stamp"

definition takeAndRegisterScreenshot :: "env \<Rightarrow> string \<Rightarrow> content list io" where
  "takeAndRegisterScreenshot e namePrefix s0 =
     bindIO (invoke e (PageScreenshot False)) (\<lambda>_ s1.
       let base64 = screenshotBase64 e (trace s0);
           name = screenshotName namePrefix (toISOString e (trace s1));
           sessionId = currentSessionId e
       in bindIO (registerScreenshot sessionId name base64) (\<lambda>_.
          bindIO (if getServer e
                  then notification e ''notifications/resources/list_changed''
                  else returnIO ()) (\<lambda>_.
          returnIO [TextContent (''Screenshot captured: '' @ name),
                    ImageContent base64 ''image/png''])) s1) s0"

subsection \<open>The nine actions\<close>

definition cuScreenshot :: "env \<Rightarrow> content list io" where
  "cuScreenshot e =
     bindIO (activePage e) (\<lambda>_. takeAndRegisterScreenshot e ''cu-screenshot'')"

definition cuClick :: "env \<Rightarrow> int \<Rightarrow> int \<Rightarrow> button \<Rightarrow> content list io" where
  "cuClick e x y b =
     tryCatch
       (bindIO (activePage e) (\<lambda>_.
        bindIO (invoke e (MouseClick x y b)) (\<lambda>_.
        bindIO (takeAndRegisterScreenshot e ''cu-click'') (\<lambda>result.
        returnIO (TextContent (''Clicked at ('' @ showInt x @ '', '' @ showInt y @ '') with ''
                    @ buttonName b) # result)))))
       (failedTo ''click'')"

definition cuDoubleClick :: "env \<Rightarrow> int \<Rightarrow> int \<Rightarrow> content list io" where
  "cuDoubleClick e x y =
     tryCatch
       (bindIO (activePage e) (\<lambda>_.
        bindIO (invoke e (MouseDblclick x y)) (\<lambda>_.
        bindIO (takeAndRegisterScreenshot e ''cu-double-click'') (\<lambda>result.
        returnIO (TextContent (''Double clicked at ('' @ showInt x @ '', '' @ showInt y @ '')'')
                    # result)))))
       (failedTo ''double click'')"

definition cuScroll :: "env \<Rightarrow> int \<Rightarrow> int \<Rightarrow> int \<Rightarrow> int \<Rightarrow> content list io" where
  "cuScroll e x y scroll_x scroll_y =
     tryCatch
       (bindIO (activePage e) (\<lambda>_.
        bindIO (invoke e (MouseMove x y)) (\<lambda>_.
        bindIO (invoke e (MouseWheel scroll_x scroll_y)) (\<lambda>_.
        bindIO (takeAndRegisterScreenshot e ''cu-scroll'') (\<lambda>result.
        returnIO (TextContent (''Scrolled at ('' @ showInt x @ '', '' @ showInt y @ '') by (''
                    @ showInt scroll_x @ '', '' @ showInt scroll_y @ '')'') # result))))))
       (failedTo ''scroll'')"

definition cuType :: "env \<Rightarrow> string \<Rightarrow> int option \<Rightarrow> content list io" where
  "cuType e text delayMs =
     tryCatch
       (bindIO (activePage e) (\<lambda>_.
        bindIO (invoke e (KeyboardType text delayMs)) (\<lambda>_.
        bindIO (takeAndRegisterScreenshot e ''cu-type'') (\<lambda>result.
        returnIO (TextContent (''Typed '' @ showNat (length text) @ '' characters'')
                    # result)))))
       (failedTo ''type'')"

definition cuWait :: "env \<Rightarrow> int \<Rightarrow> content list io" where
  "cuWait e ms =
     bindIO (activePage e) (\<lambda>_.
     bindIO (invoke e (WaitForTimeout ms)) (\<lambda>_.
     bindIO (takeAndRegisterScreenshot e ''cu-wait'') (\<lambda>result.
     returnIO (TextContent (''Waited for '' @ showInt ms @ '' ms'') # result))))"

definition cuMove :: "env \<Rightarrow> int \<Rightarrow> int \<Rightarrow> content list io" where
  "cuMove e x y =
     tryCatch
       (bindIO (activePage e) (\<lambda>_.
        bindIO (invoke e (MouseMove x y)) (\<lambda>_.
        bindIO (takeAndRegisterScreenshot e ''cu-move'') (\<lambda>result.
        returnIO (TextContent (''Moved mouse to ('' @ showInt x @ '', '' @ showInt y @ '')'')
                    # result)))))
       (failedTo ''move'')"

definition cuKeypress :: "env \<Rightarrow> string list \<Rightarrow> content list io" where
  "cuKeypress e keys =
     tryCatch
       (bindIO (activePage e) (\<lambda>_.
        bindIO (forEach keys (\<lambda>key. invoke e (KeyboardPress key))) (\<lambda>_.
        bindIO (takeAndRegisterScreenshot e ''cu-keypress'') (\<lambda>result.
        returnIO (TextContent (''Pressed keys: '' @ join '', '' keys) # result)))))
       (failedTo ''press keys'')"

text \<open>
  In \<^verbatim>\<open>cuDragTool\<close> the path is destructured as \<^verbatim>\<open>[start, ...rest]\<close>. With an empty
  path \<^verbatim>\<open>start\<close> is undefined and \<^verbatim>\<open>start.x\<close> throws a TypeError before any call; with
  one point \<^verbatim>\<open>rest[rest.length - 1]\<close> is undefined and the result text throws a TypeError
  after the calls. Both are caught by the action's own catch block. (The message is
  the engine's; the schema keeps both cases away from the handler.)
\<close>

definition undefinedRead :: js_thrown where
  "undefinedRead = JsError ''Cannot read properties of undefined (reading 'x')''"

definition cuDrag :: "env \<Rightarrow> point list \<Rightarrow> content list io" where
  "cuDrag e path =
     tryCatch
       (bindIO (activePage e) (\<lambda>_.
        case path of
          [] \<Rightarrow> throwIO undefinedRead
        | start # rest \<Rightarrow>
            bindIO (invoke e (MouseMove (ptX start) (ptY start))) (\<lambda>_.
            bindIO (invoke e MouseDown) (\<lambda>_.
            bindIO (forEach rest (\<lambda>pt. invoke e (MouseMove (ptX pt) (ptY pt)))) (\<lambda>_.
            bindIO (invoke e MouseUp) (\<lambda>_.
            bindIO (takeAndRegisterScreenshot e ''cu-drag'') (\<lambda>result.
            if rest = [] then throwIO undefinedRead
            else returnIO (TextContent (''Dragged from ('' @ showInt (ptX start) @ '', ''
                    @ showInt (ptY start) @ '') to ('' @ showInt (ptX (last rest)) @ '', ''
                    @ showInt (ptY (last rest)) @ '') via '' @ showNat (length path)
                    @ '' points'') # result))))))))
       (failedTo ''drag'')"

subsection \<open>The catalog\<close>

datatype action =
    AScreenshot
  | AClick int int button
  | ADoubleClick int int
  | AScroll int int int int
  | AType string "int option"
  | AWait int
  | AMove int int
  | AKeypress "string list"
  | ADrag "point list"

definition runAction :: "env \<Rightarrow> action \<Rightarrow> content list io" where
  "runAction e a =
     (case a of
        AScreenshot \<Rightarrow> cuScreenshot e
      | AClick x y b \<Rightarrow> cuClick e x y b
      | ADoubleClick x y \<Rightarrow> cuDoubleClick e x y
      | AScroll x y sx sy \<Rightarrow> cuScroll e x y sx sy
      | AType text delayMs \<Rightarrow> cuType e text delayMs
      | AWait ms \<Rightarrow> cuWait e ms
      | AMove x y \<Rightarrow> cuMove e x y
      | AKeypress keys \<Rightarrow> cuKeypress e keys
      | ADrag path \<Rightarrow> cuDrag e path)"

subsection \<open>Input schemas\<close>

text \<open>
  The arguments of a tool call arrive as JSON. A zod schema either rejects them with an
  issue or yields the parsed arguments; an absent property is \<open>None\<close> (JavaScript's
  \<^verbatim>\<open>undefined\<close>). Only the first issue is kept: the claims depend on whether the input
  is accepted, not on the list of issues.
\<close>

datatype json =
    JNull
  | JBool bool
  | JNumber rat
  | JString string
  | JArray "json list"
  | JObject "(string \<times> json) list"

datatype zod_issue = InvalidType | InvalidEnumValue | TooSmall

definition andThen :: "zod_issue + 'a \<Rightarrow> ('a \<Rightarrow> zod_issue + 'b) \<Rightarrow> zod_issue + 'b" where
  "andThen r f = (case r of Inl issue \<Rightarrow> Inl issue | Inr v \<Rightarrow> f v)"

text \<open>\<^verbatim>\<open>z.object({...})\<close>: the input must be an object; unknown keys are dropped.\<close>

definition zObject ::
  "json option \<Rightarrow> ((string \<Rightarrow> json option) \<Rightarrow> zod_issue + 'a) \<Rightarrow> zod_issue + 'a" where
  "zObject v shape = (case v of Some (JObject kvs) \<Rightarrow> shape (map_of kvs) | _ \<Rightarrow> Inl InvalidType)"

text \<open>\<^verbatim>\<open>z.number().int()\<close>\<close>

definition zInt :: "json option \<Rightarrow> zod_issue + int" where
  "zInt v =
     (case v of
        Some (JNumber q) \<Rightarrow> if of_int \<lfloor>q\<rfloor> = q then Inr \<lfloor>q\<rfloor> else Inl InvalidType
      | _ \<Rightarrow> Inl InvalidType)"

text \<open>\<^verbatim>\<open>z.string()\<close>\<close>

definition zString :: "json option \<Rightarrow> zod_issue + string" where
  "zString v = (case v of Some (JString t) \<Rightarrow> Inr t | _ \<Rightarrow> Inl InvalidType)"

text \<open>\<^verbatim>\<open>z.enum(["left", "right", "middle"])\<close>\<close>

definition zButton :: "json option \<Rightarrow> zod_issue + button" where
  "zButton v =
     (case v of
        Some (JString t) \<Rightarrow>
          if t = ''left'' then Inr BLeft
          else if t = ''right'' then Inr BRight
          else if t = ''middle'' then Inr BMiddle
          else Inl InvalidEnumValue
      | _ \<Rightarrow> Inl InvalidType)"

text \<open>\<^verbatim>\<open>.optional()\<close>: \<^verbatim>\<open>undefined\<close> passes as it is.\<close>

definition zOptional ::
  "(json option \<Rightarrow> zod_issue + 'a) \<Rightarrow> json option \<Rightarrow> zod_issue + 'a option" where
  "zOptional p v = (case v of None \<Rightarrow> Inr None | Some _ \<Rightarrow> andThen (p v) (\<lambda>a. Inr (Some a)))"

text \<open>
  \<^verbatim>\<open>.default(d)\<close>: \<^verbatim>\<open>undefined\<close> is replaced by \<open>d\<close> before the inner schema parses it. In
  \<^verbatim>\<open>z.enum([...]).optional().default("left")\<close> the inner \<^verbatim>\<open>.optional()\<close> therefore never
  meets \<^verbatim>\<open>undefined\<close>, and the parsed value is a button.
\<close>

definition zDefault ::
  "(json option \<Rightarrow> zod_issue + 'a) \<Rightarrow> json \<Rightarrow> json option \<Rightarrow> zod_issue + 'a" where
  "zDefault p d v = (case v of None \<Rightarrow> p (Some d) | Some _ \<Rightarrow> p v)"

text \<open>\<^verbatim>\<open>z.array(p).min(n)\<close>\<close>

fun zElements :: "(json option \<Rightarrow> zod_issue + 'a) \<Rightarrow> json list \<Rightarrow> zod_issue + 'a list" where
  "zElements p [] = Inr []"
| "zElements p (v # vs) =
     andThen (p (Some v)) (\<lambda>a. andThen (zElements p vs) (\<lambda>as. Inr (a # as)))"

definition zArrayMin ::
  "nat \<Rightarrow> (json option \<Rightarrow> zod_issue + 'a) \<Rightarrow> json option \<Rightarrow> zod_issue + 'a list" where
  "zArrayMin n p v =
     (case v of
        Some (JArray vs) \<Rightarrow> if length vs < n then Inl TooSmall else zElements p vs
      | _ \<Rightarrow> Inl InvalidType)"

definition zPoint :: "json option \<Rightarrow> zod_issue + point" where
  "zPoint v = zObject v (\<lambda>get.
     andThen (zInt (get ''x'')) (\<lambda>x.
     andThen (zInt (get ''y'')) (\<lambda>y. Inr (Point x y))))"

definition CuScreenshotInputSchema :: "json option \<Rightarrow> zod_issue + action" where
  "CuScreenshotInputSchema v = zObject v (\<lambda>get. Inr AScreenshot)"

definition CuClickInputSchema :: "json option \<Rightarrow> zod_issue + action" where
  "CuClickInputSchema v = zObject v (\<lambda>get.
     andThen (zInt (get ''x'')) (\<lambda>x.
     andThen (zInt (get ''y'')) (\<lambda>y.
     andThen (zDefault zButton (JString ''left'') (get ''button'')) (\<lambda>b.
     Inr (AClick x y b)))))"

definition CuDoubleClickInputSchema :: "json option \<Rightarrow> zod_issue + action" where
  "CuDoubleClickInputSchema v = zObject v (\<lambda>get.
     andThen (zInt (get ''x'')) (\<lambda>x.
     andThen (zInt (get ''y'')) (\<lambda>y.
     Inr (ADoubleClick x y))))"

definition CuScrollInputSchema :: "json option \<Rightarrow> zod_issue + action" where
  "CuScrollInputSchema v = zObject v (\<lambda>get.
     andThen (zInt (get ''x'')) (\<lambda>x.
     andThen (zInt (get ''y'')) (\<lambda>y.
     andThen (zInt (get ''scroll_x'')) (\<lambda>sx.
     andThen (zInt (get ''scroll_y'')) (\<lambda>sy.
     Inr (AScroll x y sx sy))))))"

definition CuTypeInputSchema :: "json option \<Rightarrow> zod_issue + action" where
  "CuTypeInputSchema v = zObject v (\<lambda>get.
     andThen (zString (get ''text'')) (\<lambda>text.
     andThen (zOptional zInt (get ''delayMs'')) (\<lambda>delayMs.
     Inr (AType text delayMs))))"

definition CuWaitInputSchema :: "json option \<Rightarrow> zod_issue + action" where
  "CuWaitInputSchema v = zObject v (\<lambda>get.
     andThen (zDefault zInt (JNumber 1000) (get ''ms'')) (\<lambda>ms.
     Inr (AWait ms)))"

definition CuMoveInputSchema :: "json option \<Rightarrow> zod_issue + action" where
  "CuMoveInputSchema v = zObject v (\<lambda>get.
     andThen (zInt (get ''x'')) (\<lambda>x.
     andThen (zInt (get ''y'')) (\<lambda>y.
     Inr (AMove x y))))"

definition CuKeypressInputSchema :: "json option \<Rightarrow> zod_issue + action" where
  "CuKeypressInputSchema v = zObject v (\<lambda>get.
     andThen (zArrayMin 1 zString (get ''keys'')) (\<lambda>keys.
     Inr (AKeypress keys)))"

definition CuDragInputSchema :: "json option \<Rightarrow> zod_issue + action" where
  "CuDragInputSchema v = zObject v (\<lambda>get.
     andThen (zArrayMin 2 zPoint (get ''path'')) (\<lambda>path.
     Inr (ADrag path)))"

datatype tool =
    CuScreenshotTool
  | CuClickTool
  | CuDoubleClickTool
  | CuScrollTool
  | CuTypeTool
  | CuWaitTool
  | CuMoveTool
  | CuKeypressTool
  | CuDragTool

definition inputSchema :: "tool \<Rightarrow> json option \<Rightarrow> zod_issue + action" where
  "inputSchema t =
     (case t of
        CuScreenshotTool \<Rightarrow> CuScreenshotInputSchema
      | CuClickTool \<Rightarrow> CuClickInputSchema
      | CuDoubleClickTool \<Rightarrow> CuDoubleClickInputSchema
      | CuScrollTool \<Rightarrow> CuScrollInputSchema
      | CuTypeTool \<Rightarrow> CuTypeInputSchema
      | CuWaitTool \<Rightarrow> CuWaitInputSchema
      | CuMoveTool \<Rightarrow> CuMoveInputSchema
      | CuKeypressTool \<Rightarrow> CuKeypressInputSchema
      | CuDragTool \<Rightarrow> CuDragInputSchema)"

datatype failure = ValidationError zod_issue | ActionError js_thrown

text \<open>
  Modelled from the spec: the layer that receives a tool call (\<^verbatim>\<open>defineTool\<close> of
  \<^verbatim>\<open>./tool.js\<close> and the server that runs the returned \<^verbatim>\<open>action\<close>), which is not among
  the sources. The spec (2, 7): the arguments are validated against the action's schema
  first; a validation error is surfaced before any side effect occurs; otherwise the
  action runs once, to success or to its error.
\<close>

definition callTool :: "env \<Rightarrow> tool \<Rightarrow> json option \<Rightarrow> state \<Rightarrow> (failure + content list) \<times> state" where
  "callTool e t arguments s =
     (case inputSchema t arguments of
        Inl issue \<Rightarrow> (Inl (ValidationError issue), s)
      | Inr a \<Rightarrow>
          (case runAction e a s of
             (Inl err, s') \<Rightarrow> (Inl (ActionError err), s')
           | (Inr result, s') \<Rightarrow> (Inr result, s')))"

subsection \<open>Notions used in the statements\<close>

text \<open>
  The shape of what \<^verbatim>\<open>Date.prototype.toISOString\<close> returns for the years 0000 to 9999,
  \<^verbatim>\<open>YYYY-MM-DDTHH:mm:ss.sssZ\<close>: a \<open>d\<close> of the pattern stands for a decimal digit, every
  other character for itself. The clock has millisecond precision.
\<close>

definition isoShape :: "string \<Rightarrow> bool" where
  "isoShape stamp =
     list_all2 (\<lambda>c p. if p = CHR ''d'' then c \<in> set ''0123456789'' else c = p)
       stamp ''dddd-dd-ddTdd:dd:dd.dddZ''"

text \<open>
  A concrete environment for the examples: a page is active, a server is registered, no
  call fails, and the clock reads the same millisecond at every capture.
\<close>

definition exampleEnv :: env where
  "exampleEnv =
     \<lparr>getActivePage = PageOk, currentSessionId = ''session-1'', getServer = True,
      outcome = (\<lambda>_ _. None), screenshotBase64 = (\<lambda>_. ''iVBORw0KGgo=''),
      toISOString = (\<lambda>_. ''2025-01-01T00:00:00.000Z''),
      notificationSettles = (\<lambda>_. None)\<rparr>"

definition initialState :: state where
  "initialState = \<lparr>trace = [], resources = [], unhandled = []\<rparr>"

text \<open>The same environment, with one call that fails.\<close>

definition failingAt :: "call \<Rightarrow> js_thrown \<Rightarrow> env" where
  "failingAt c err = exampleEnv\<lparr>outcome := (\<lambda>_ k. if k = c then Some err else None)\<rparr>"

text \<open>A clock that has moved on by one millisecond at the second capture.\<close>

definition tickingEnv :: env where
  "tickingEnv = exampleEnv\<lparr>toISOString :=
      (\<lambda>h. if length h < 2 then ''2025-01-01T00:00:00.000Z'' else ''2025-01-01T00:00:00.001Z'')\<rparr>"

text \<open>A server whose \<^verbatim>\<open>notification\<close> promise rejects.\<close>

definition rejectingEnv :: env where
  "rejectingEnv = exampleEnv\<lparr>notificationSettles := (\<lambda>_. Some (JsError ''Not connected''))\<rparr>"


definition keypressArguments :: "json option" where
  "keypressArguments =
     Some (JObject [(''keys'', JArray [JString ''Shift+Tab'', JString ''Enter''])])"

section \<open>Basic facts\<close>

lemmas io_defs = returnIO_def throwIO_def bindIO_def tryCatch_def failedTo_def
  activePage_def invoke_def registerScreenshot_def notification_def errorMessage_def

lemmas tool_defs = cuScreenshot_def cuClick_def cuDoubleClick_def cuScroll_def cuType_def
  cuWait_def cuMove_def cuKeypress_def cuDrag_def

lemma takeAndRegisterScreenshot_eq:
  "takeAndRegisterScreenshot e p s =
     (case outcome e (trace s) (PageScreenshot False) of
        Some err \<Rightarrow> (Inl err, s\<lparr>trace := trace s @ [PageScreenshot False]\<rparr>)
      | None \<Rightarrow>
         (Inr [TextContent (''Screenshot captured: '' @
                  screenshotName p (toISOString e (trace s @ [PageScreenshot False]))),
               ImageContent (screenshotBase64 e (trace s)) ''image/png''],
          s\<lparr>trace := trace s @ PageScreenshot False #
                  (if getServer e then [Notification ''notifications/resources/list_changed''] else []),
            resources := resources s @
              [\<lparr>resSession = currentSessionId e,
                resName = screenshotName p (toISOString e (trace s @ [PageScreenshot False])),
                resData = screenshotBase64 e (trace s)\<rparr>],
            unhandled := unhandled s @
              (if getServer e
               then (case notificationSettles e (trace s @ [PageScreenshot False]) of
                       None \<Rightarrow> [] | Some err \<Rightarrow> [err])
               else [])\<rparr>))"
  by (simp add: takeAndRegisterScreenshot_def io_defs Let_def split: option.splits)

lemma invoke_None:
  "outcome e (trace s) c = None \<Longrightarrow> invoke e c s = (Inr (), s\<lparr>trace := trace s @ [c]\<rparr>)"
  by (simp add: invoke_def)

lemma invoke_Some:
  "outcome e (trace s) c = Some err \<Longrightarrow> invoke e c s = (Inl err, s\<lparr>trace := trace s @ [c]\<rparr>)"
  by (simp add: invoke_def)

lemma forEach_invoke_Inr:
  "forEach vs (\<lambda>v. invoke e (C v)) s = (Inr u, s') \<Longrightarrow> s' = s\<lparr>trace := trace s @ map C vs\<rparr>"
proof (induction vs arbitrary: s)
  case Nil
  then show ?case by (simp add: returnIO_def)
next
  case (Cons v vs)
  show ?case
  proof (cases "outcome e (trace s) (C v)")
    case (Some err)
    with Cons.prems show ?thesis by (simp add: bindIO_def invoke_Some)
  next
    case None
    with Cons.prems
    have "forEach vs (\<lambda>v. invoke e (C v)) (s\<lparr>trace := trace s @ [C v]\<rparr>) = (Inr u, s')"
      by (simp add: bindIO_def invoke_None)
    from Cons.IH [OF this] show ?thesis by simp
  qed
qed

lemma forEach_invoke_Inl:
  "forEach vs (\<lambda>v. invoke e (C v)) s = (Inl err, s') \<Longrightarrow>
     \<exists>n. 0 < n \<and> n \<le> length vs \<and> s' = s\<lparr>trace := trace s @ map C (take n vs)\<rparr>"
proof (induction vs arbitrary: s)
  case Nil
  then show ?case by (simp add: returnIO_def)
next
  case (Cons v vs)
  show ?case
  proof (cases "outcome e (trace s) (C v)")
    case (Some err')
    with Cons.prems have "s' = s\<lparr>trace := trace s @ map C (take 1 (v # vs))\<rparr>"
      by (simp add: bindIO_def invoke_Some)
    then show ?thesis by (intro exI [of _ 1]) simp
  next
    case None
    with Cons.prems
    have "forEach vs (\<lambda>v. invoke e (C v)) (s\<lparr>trace := trace s @ [C v]\<rparr>) = (Inl err, s')"
      by (simp add: bindIO_def invoke_None)
    from Cons.IH [OF this] obtain n where n: "0 < n" "n \<le> length vs"
      "s' = s\<lparr>trace := trace s @ [C v]\<rparr>\<lparr>trace := trace (s\<lparr>trace := trace s @ [C v]\<rparr>) @ map C (take n vs)\<rparr>"
      by blast
    then show ?thesis by (intro exI [of _ "Suc n"]) simp
  qed
qed

lemma forEach_invoke_ok:
  "(\<forall>h. \<forall>v\<in>set vs. outcome e h (C v) = None) \<Longrightarrow>
     forEach vs (\<lambda>v. invoke e (C v)) s = (Inr (), s\<lparr>trace := trace s @ map C vs\<rparr>)"
  by (induction vs arbitrary: s) (simp_all add: returnIO_def bindIO_def invoke_None)


lemma returnIO_Inr_iff [simp]: "returnIO v s = (Inr u, s') \<longleftrightarrow> u = v \<and> s' = s"
  by (auto simp: returnIO_def)

lemma returnIO_Inl_iff [simp]: "returnIO v s = (Inl err, s') \<longleftrightarrow> False"
  by (simp add: returnIO_def)

lemma throwIO_Inr_iff [simp]: "throwIO err s = (Inr u, s') \<longleftrightarrow> False"
  by (simp add: throwIO_def)

lemma throwIO_Inl_iff [simp]: "throwIO err s = (Inl err', s') \<longleftrightarrow> err' = err \<and> s' = s"
  by (auto simp: throwIO_def)

lemma bindIO_Inr_iff:
  "bindIO m f s = (Inr v, s') \<longleftrightarrow> (\<exists>u s1. m s = (Inr u, s1) \<and> f u s1 = (Inr v, s'))"
  by (auto simp: bindIO_def split: prod.splits sum.splits)

lemma bindIO_Inl_iff:
  "bindIO m f s = (Inl err, s') \<longleftrightarrow>
     m s = (Inl err, s') \<or> (\<exists>u s1. m s = (Inr u, s1) \<and> f u s1 = (Inl err, s'))"
  by (auto simp: bindIO_def split: prod.splits sum.splits)

lemma tryCatch_failedTo_Inr_iff:
  "tryCatch m (failedTo verb) s = (Inr v, s') \<longleftrightarrow> m s = (Inr v, s')"
  by (auto simp: tryCatch_def failedTo_def throwIO_def split: prod.splits sum.splits)

lemma tryCatch_failedTo_Inl_iff:
  "tryCatch m (failedTo verb) s = (Inl err, s') \<longleftrightarrow>
     (\<exists>cause. m s = (Inl cause, s') \<and>
        err = JsError (''Failed to '' @ verb @ '': '' @ errorMessage cause))"
  by (auto simp: tryCatch_def failedTo_def throwIO_def split: prod.splits sum.splits)

lemma invoke_Inr_iff:
  "invoke e c s = (Inr u, s') \<longleftrightarrow>
     outcome e (trace s) c = None \<and> s' = s\<lparr>trace := trace s @ [c]\<rparr>"
  by (auto simp: invoke_def split: option.splits)

lemma invoke_Inl_iff:
  "invoke e c s = (Inl err, s') \<longleftrightarrow>
     outcome e (trace s) c = Some err \<and> s' = s\<lparr>trace := trace s @ [c]\<rparr>"
  by (auto simp: invoke_def split: option.splits)

lemma activePage_Inr_iff:
  "activePage e s = (Inr u, s') \<longleftrightarrow> getActivePage e = PageOk \<and> s' = s"
  by (auto simp: activePage_def split: page_result.splits)

lemma activePage_Inl_iff:
  "activePage e s = (Inl err, s') \<longleftrightarrow>
     s' = s \<and> (getActivePage e = PageThrows err \<or>
       getActivePage e = PageNull \<and> err = JsError ''No active page available'')"
  by (auto simp: activePage_def split: page_result.splits)

lemma takeAndRegisterScreenshot_Inr_iff:
  "takeAndRegisterScreenshot e p s = (Inr c, s') \<longleftrightarrow>
     outcome e (trace s) (PageScreenshot False) = None \<and>
     c = [TextContent (''Screenshot captured: '' @
            screenshotName p (toISOString e (trace s @ [PageScreenshot False]))),
          ImageContent (screenshotBase64 e (trace s)) ''image/png''] \<and>
     s' = s\<lparr>trace := trace s @ PageScreenshot False #
                (if getServer e then [Notification ''notifications/resources/list_changed''] else []),
            resources := resources s @
              [\<lparr>resSession = currentSessionId e,
                resName = screenshotName p (toISOString e (trace s @ [PageScreenshot False])),
                resData = screenshotBase64 e (trace s)\<rparr>],
            unhandled := unhandled s @
              (if getServer e
               then (case notificationSettles e (trace s @ [PageScreenshot False]) of
                       None \<Rightarrow> [] | Some err \<Rightarrow> [err])
               else [])\<rparr>"
  by (auto simp: takeAndRegisterScreenshot_eq split: option.splits)

lemma takeAndRegisterScreenshot_Inl_iff:
  "takeAndRegisterScreenshot e p s = (Inl err, s') \<longleftrightarrow>
     outcome e (trace s) (PageScreenshot False) = Some err \<and>
     s' = s\<lparr>trace := trace s @ [PageScreenshot False]\<rparr>"
  by (auto simp: takeAndRegisterScreenshot_eq split: option.splits)

lemmas Inr_iffs = bindIO_Inr_iff tryCatch_failedTo_Inr_iff invoke_Inr_iff activePage_Inr_iff
  takeAndRegisterScreenshot_Inr_iff

lemmas Inl_iffs = bindIO_Inl_iff tryCatch_failedTo_Inl_iff invoke_Inl_iff activePage_Inl_iff
  takeAndRegisterScreenshot_Inl_iff

lemma invoke_notificationSettles [simp]:
  "invoke (e\<lparr>notificationSettles := f\<rparr>) c = invoke e c"
  by (rule ext) (simp add: invoke_def)

lemma activePage_notificationSettles [simp]:
  "activePage (e\<lparr>notificationSettles := f\<rparr>) = activePage e"
  by (simp add: activePage_def)

lemma invoke_getServer [simp]: "invoke (e\<lparr>getServer := g\<rparr>) c = invoke e c"
  by (rule ext) (simp add: invoke_def)

lemma activePage_getServer [simp]: "activePage (e\<lparr>getServer := g\<rparr>) = activePage e"
  by (simp add: activePage_def)

lemma count_list_map_other:
  "(\<And>v. C v \<noteq> k) \<Longrightarrow> count_list (map C vs) k = 0"
  by (induction vs) auto

lemma callTool_Inr_iff:
  "callTool e t arguments s = (Inr c, s') \<longleftrightarrow>
     (\<exists>a. inputSchema t arguments = Inr a \<and> runAction e a s = (Inr c, s'))"
  by (auto simp: callTool_def split: sum.splits prod.splits)

subsection \<open>Schemas\<close>


lemma zElements_zString: "zElements zString (map JString keys) = Inr keys"
  by (induction keys) (simp_all add: zString_def andThen_def)

lemma zElements_length: "zElements p vs = Inr as \<Longrightarrow> length as = length vs"
  by (induction vs arbitrary: as) (auto simp: andThen_def split: sum.splits)

lemma zArrayMin_Inr: "zArrayMin n p v = Inr as \<Longrightarrow> n \<le> length as"
  by (auto simp: zArrayMin_def dest: zElements_length
        split: option.splits json.splits if_splits)


lemma CuKeypressInputSchema_Inr:
  assumes "CuKeypressInputSchema arguments = Inr a"
  shows "\<exists>keys. keys \<noteq> [] \<and> a = AKeypress keys"
proof -
  from assms obtain keys where "a = AKeypress keys" "1 \<le> length keys"
    by (auto simp: CuKeypressInputSchema_def zObject_def andThen_def dest: zArrayMin_Inr
          split: option.splits json.splits sum.splits)
  then show ?thesis
    by (cases keys) auto
qed



subsection \<open>Decimal rendering\<close>













subsection \<open>Evaluation of the examples\<close>

lemmas eval_defs = exampleEnv_def initialState_def failingAt_def runAction_def tool_defs io_defs
  takeAndRegisterScreenshot_eq screenshotName_def replaceColons_def showInt_def showNat.simps
  digitChar_def buttonName_def

lemmas schema_defs = callTool_def inputSchema_def CuScreenshotInputSchema_def
  CuClickInputSchema_def CuDoubleClickInputSchema_def CuScrollInputSchema_def
  CuTypeInputSchema_def CuWaitInputSchema_def CuMoveInputSchema_def CuKeypressInputSchema_def
  CuDragInputSchema_def zObject_def zInt_def zString_def zButton_def zOptional_def
  zDefault_def zArrayMin_def zPoint_def andThen_def

section \<open>Error translation\<close>

text \<open>
  Seven actions run their body inside \<^verbatim>\<open>try { ... } catch\<close>: whatever the body throws is
  thrown again as \<^verbatim>\<open>Error("Failed to <verb>: <message>")\<close>. In particular a failure of
  \<^verbatim>\<open>keyboard.type\<close> gives a message that starts with \<^verbatim>\<open>Failed to type: \<close>.
\<close>

lemma wrapped_failures:
  "runAction e (AClick x y b) s = (Inl err, s') \<Longrightarrow>
     \<exists>cause. err = JsError (''Failed to click: '' @ errorMessage cause)"
  "runAction e (ADoubleClick x y) s = (Inl err, s') \<Longrightarrow>
     \<exists>cause. err = JsError (''Failed to double click: '' @ errorMessage cause)"
  "runAction e (AScroll x y sx sy) s = (Inl err, s') \<Longrightarrow>
     \<exists>cause. err = JsError (''Failed to scroll: '' @ errorMessage cause)"
  "runAction e (AType text delayMs) s = (Inl err, s') \<Longrightarrow>
     \<exists>cause. err = JsError (''Failed to type: '' @ errorMessage cause)"
  "runAction e (AMove x y) s = (Inl err, s') \<Longrightarrow>
     \<exists>cause. err = JsError (''Failed to move: '' @ errorMessage cause)"
  "runAction e (AKeypress keys) s = (Inl err, s') \<Longrightarrow>
     \<exists>cause. err = JsError (''Failed to press keys: '' @ errorMessage cause)"
  "runAction e (ADrag path) s = (Inl err, s') \<Longrightarrow>
     \<exists>cause. err = JsError (''Failed to drag: '' @ errorMessage cause)"
  by (auto simp: runAction_def tool_defs tryCatch_failedTo_Inl_iff)

lemma type_primitive_failure:
  "getActivePage e = PageOk \<Longrightarrow> outcome e (trace s) (KeyboardType text delayMs) = Some cause \<Longrightarrow>
     runAction e (AType text delayMs) s =
       (Inl (JsError (''Failed to type: '' @ errorMessage cause)),
        s\<lparr>trace := trace s @ [KeyboardType text delayMs]\<rparr>)"
  by (simp add: runAction_def cuType_def io_defs)

text \<open>
  The wait and screenshot actions have no \<^verbatim>\<open>try\<close>: what a call throws leaves the action
  as it is.
\<close>

lemma unwrapped_failures:
  "getActivePage e = PageOk \<Longrightarrow> outcome e (trace s) (WaitForTimeout ms) = Some cause \<Longrightarrow>
     fst (runAction e (AWait ms) s) = Inl cause"
  "getActivePage e = PageOk \<Longrightarrow> outcome e (trace s) (PageScreenshot False) = Some cause \<Longrightarrow>
     fst (runAction e AScreenshot s) = Inl cause"
  by (simp_all add: runAction_def cuWait_def cuScreenshot_def io_defs
        takeAndRegisterScreenshot_eq)

text \<open>
  C1. Every action is claimed to rethrow a failure as \<^verbatim>\<open>Failed to <verb>: <message>\<close>.
  The wait action does not: when \<^verbatim>\<open>page.waitForTimeout(1000)\<close> rejects with
  \<^verbatim>\<open>Error("Target closed")\<close>, the action rejects with that very error, message
  \<^verbatim>\<open>Target closed\<close>, and not with \<^verbatim>\<open>Failed to wait: Target closed\<close>.
\<close>

theorem cuWait_failure_not_wrapped:
  "runAction (failingAt (WaitForTimeout 1000) (JsError ''Target closed'')) (AWait 1000) initialState
     = (Inl (JsError ''Target closed''), initialState\<lparr>trace := [WaitForTimeout 1000]\<rparr>)"
  by (simp add: eval_defs)

section \<open>No active page\<close>

text \<open>
  C2, as stated, asks for a no-session error of a kind of its own. The click action throws
  the missing page inside its \<^verbatim>\<open>try\<close>, so the caller receives the same error as when
  \<^verbatim>\<open>mouse.click\<close> itself fails with that message.
\<close>

theorem no_page_error_not_distinct:
  "runAction (exampleEnv\<lparr>getActivePage := PageNull\<rparr>) (AClick 10 20 BLeft) initialState
     = (Inl (JsError ''Failed to click: No active page available''), initialState)
   \<and> fst (runAction (failingAt (MouseClick 10 20 BLeft) (JsError ''No active page available''))
            (AClick 10 20 BLeft) initialState)
     = Inl (JsError ''Failed to click: No active page available'')"
  by (simp add: eval_defs)

text \<open>
  C2, amended. When \<^verbatim>\<open>getActivePage()\<close> returns null, every action fails at once and
  leaves the state as it was: no call on the page, no capture, no registration, no
  notification. The error is an \<^verbatim>\<open>Error\<close> with the message \<^verbatim>\<open>No active page available\<close>
  for screenshot and wait, and \<^verbatim>\<open>Failed to <verb>: No active page available\<close> for the
  seven other actions.
\<close>

theorem no_page_fails_before_any_effect:
  assumes "getActivePage e = PageNull"
  shows "runAction e AScreenshot s = (Inl (JsError ''No active page available''), s)
    \<and> runAction e (AWait ms) s = (Inl (JsError ''No active page available''), s)
    \<and> runAction e (AClick x y b) s =
        (Inl (JsError ''Failed to click: No active page available''), s)
    \<and> runAction e (ADoubleClick x y) s =
        (Inl (JsError ''Failed to double click: No active page available''), s)
    \<and> runAction e (AScroll x y sx sy) s =
        (Inl (JsError ''Failed to scroll: No active page available''), s)
    \<and> runAction e (AType text delayMs) s =
        (Inl (JsError ''Failed to type: No active page available''), s)
    \<and> runAction e (AMove x y) s =
        (Inl (JsError ''Failed to move: No active page available''), s)
    \<and> runAction e (AKeypress keys) s =
        (Inl (JsError ''Failed to press keys: No active page available''), s)
    \<and> runAction e (ADrag path) s =
        (Inl (JsError ''Failed to drag: No active page available''), s)"
  using assms by (simp add: runAction_def tool_defs io_defs)

theorem no_page_fails_before_any_effect_witness:
  "getActivePage (exampleEnv\<lparr>getActivePage := PageNull\<rparr>) = PageNull
   \<and> runAction (exampleEnv\<lparr>getActivePage := PageNull\<rparr>) (AWait 1000) initialState
       = (Inl (JsError ''No active page available''), initialState)
   \<and> runAction (exampleEnv\<lparr>getActivePage := PageNull\<rparr>) (ADrag [Point 10 10, Point 50 60])
        initialState
       = (Inl (JsError ''Failed to drag: No active page available''), initialState)"
  using no_page_fails_before_any_effect
    [where e = "exampleEnv\<lparr>getActivePage := PageNull\<rparr>" and s = initialState
       and ms = 1000 and path = "[Point 10 10, Point 50 60]"]
  by (simp add: exampleEnv_def)

section \<open>Shape of a result\<close>

text \<open>
  C3, as stated, gives every successful result three parts: a descriptive text, a text
  naming the screenshot, an image. The screenshot action returns what
  \<^verbatim>\<open>takeAndRegisterScreenshot\<close> returns, two parts: the text naming the screenshot and
  the image, with no descriptive part before them.
\<close>

theorem screenshot_result_has_no_descriptive_part:
  "fst (runAction exampleEnv AScreenshot initialState) =
     Inr [TextContent ''Screenshot captured: cu-screenshot-2025-01-01T00-00-00.000Z'',
          ImageContent ''iVBORw0KGgo='' ''image/png'']"
  by (simp add: eval_defs)

text \<open>
  C3, amended. A successful invocation of click, double click, scroll, type, wait, move,
  keypress or drag returns exactly one descriptive text part, then the text part naming
  the screenshot just registered, then the image part of type \<^verbatim>\<open>image/png\<close>; a
  successful screenshot action returns the last two only. The order is fixed, and an
  invocation yields either a result or an error (the two summands), never both.
\<close>

theorem result_shape:
  assumes "runAction e a s = (Inr c, s')"
  shows "\<exists>r. resources s' = resources s @ [r] \<and>
           (a = AScreenshot \<longrightarrow>
              c = [TextContent (''Screenshot captured: '' @ resName r),
                   ImageContent (resData r) ''image/png'']) \<and>
           (a \<noteq> AScreenshot \<longrightarrow>
              (\<exists>d. c = [TextContent d,
                         TextContent (''Screenshot captured: '' @ resName r),
                         ImageContent (resData r) ''image/png'']))"
proof (cases a)
  case (AKeypress keys)
  with assms show ?thesis
    by (auto simp: runAction_def cuKeypress_def Inr_iffs dest!: forEach_invoke_Inr)
next
  case (ADrag path)
  with assms show ?thesis
    by (auto simp: runAction_def cuDrag_def Inr_iffs dest!: forEach_invoke_Inr
          split: list.splits if_splits)
qed (use assms in \<open>auto simp: runAction_def tool_defs Inr_iffs\<close>)

theorem result_shape_witness:
  "runAction exampleEnv (AMove 5 7) initialState =
     (Inr [TextContent ''Moved mouse to (5, 7)'',
           TextContent ''Screenshot captured: cu-move-2025-01-01T00-00-00.000Z'',
           ImageContent ''iVBORw0KGgo='' ''image/png''],
      \<lparr>trace = [MouseMove 5 7, PageScreenshot False,
                 Notification ''notifications/resources/list_changed''],
        resources = [\<lparr>resSession = ''session-1'',
                      resName = ''cu-move-2025-01-01T00-00-00.000Z'',
                      resData = ''iVBORw0KGgo=''\<rparr>],
        unhandled = []\<rparr>)
   \<and> (\<exists>r. resources \<lparr>trace = [MouseMove 5 7, PageScreenshot False,
                 Notification ''notifications/resources/list_changed''],
        resources = [\<lparr>resSession = ''session-1'',
                      resName = ''cu-move-2025-01-01T00-00-00.000Z'',
                      resData = ''iVBORw0KGgo=''\<rparr>],
        unhandled = []\<rparr> = resources initialState @ [r] \<and>
        (\<exists>d. [TextContent ''Moved mouse to (5, 7)'',
           TextContent ''Screenshot captured: cu-move-2025-01-01T00-00-00.000Z'',
           ImageContent ''iVBORw0KGgo='' ''image/png''] = [TextContent d,
                         TextContent (''Screenshot captured: '' @ resName r),
                         ImageContent (resData r) ''image/png'']))"
proof -
  have run: "runAction exampleEnv (AMove 5 7) initialState =
     (Inr [TextContent ''Moved mouse to (5, 7)'',
           TextContent ''Screenshot captured: cu-move-2025-01-01T00-00-00.000Z'',
           ImageContent ''iVBORw0KGgo='' ''image/png''],
      \<lparr>trace = [MouseMove 5 7, PageScreenshot False,
                 Notification ''notifications/resources/list_changed''],
        resources = [\<lparr>resSession = ''session-1'',
                      resName = ''cu-move-2025-01-01T00-00-00.000Z'',
                      resData = ''iVBORw0KGgo=''\<rparr>],
        unhandled = []\<rparr>)"
    by (simp add: eval_defs)
  from result_shape [OF run] run show ?thesis by simp
qed

section \<open>Notification of the resource list\<close>

text \<open>
  C4, as stated, has exactly one notification for every successful registration. With no
  server registered (\<^verbatim>\<open>context.getServer()\<close> returns null) the screenshot is registered
  and no notification is sent.
\<close>

theorem registration_without_notification:
  "runAction (exampleEnv\<lparr>getServer := False\<rparr>) (AClick 10 20 BLeft) initialState =
     (Inr [TextContent ''Clicked at (10, 20) with left'',
           TextContent ''Screenshot captured: cu-click-2025-01-01T00-00-00.000Z'',
           ImageContent ''iVBORw0KGgo='' ''image/png''],
      \<lparr>trace = [MouseClick 10 20 BLeft, PageScreenshot False],
        resources = [\<lparr>resSession = ''session-1'',
                      resName = ''cu-click-2025-01-01T00-00-00.000Z'',
                      resData = ''iVBORw0KGgo=''\<rparr>],
        unhandled = []\<rparr>)"
  by (simp add: eval_defs)

text \<open>
  Whether the promise returned by \<^verbatim>\<open>notification\<close> resolves or rejects, the action
  returns the same result or the same error.
\<close>

lemma settles_irrelevant:
  "fst (runAction (e\<lparr>notificationSettles := f\<rparr>) a s) = fst (runAction e a s)"
proof (cases a)
  case (AKeypress keys)
  obtain r s1 where "forEach keys (\<lambda>key. invoke e (KeyboardPress key)) s = (r, s1)"
    by (cases "forEach keys (\<lambda>key. invoke e (KeyboardPress key)) s")
  with AKeypress show ?thesis
    by (cases r)
      (simp_all add: runAction_def cuKeypress_def io_defs takeAndRegisterScreenshot_eq
        split: page_result.splits option.splits)
next
  case (ADrag path)
  show ?thesis
  proof (cases path)
    case Nil
    with ADrag show ?thesis
      by (simp add: runAction_def cuDrag_def io_defs split: page_result.splits)
  next
    case (Cons start rest)
    obtain r s1 where
      "forEach rest (\<lambda>pt. invoke e (MouseMove (ptX pt) (ptY pt)))
         (s\<lparr>trace := trace s @ [MouseMove (ptX start) (ptY start), MouseDown]\<rparr>) = (r, s1)"
      by (cases "forEach rest (\<lambda>pt. invoke e (MouseMove (ptX pt) (ptY pt)))
         (s\<lparr>trace := trace s @ [MouseMove (ptX start) (ptY start), MouseDown]\<rparr>)")
    with ADrag Cons show ?thesis
      by (cases r)
        (simp_all add: runAction_def cuDrag_def io_defs takeAndRegisterScreenshot_eq
          split: page_result.splits option.splits)
  qed
qed (simp_all add: runAction_def tool_defs io_defs takeAndRegisterScreenshot_eq
       split: page_result.splits option.splits)

text \<open>
  C4, amended. A successful action registers exactly one screenshot, and sends exactly one
  list-changed notification if a server is registered and none otherwise. The promise of
  the notification is not awaited: whatever it settles to, the action returns the same.
\<close>

theorem notification_per_registration:
  "(runAction e a s = (Inr c, s') \<longrightarrow>
      length (resources s') = Suc (length (resources s)) \<and>
      count_list (trace s') (Notification ''notifications/resources/list_changed'') =
        count_list (trace s) (Notification ''notifications/resources/list_changed'')
          + (if getServer e then 1 else 0))
   \<and> fst (runAction (e\<lparr>notificationSettles := f\<rparr>) a s) = fst (runAction e a s)"
proof (intro conjI impI)
  assume run: "runAction e a s = (Inr c, s')"
  show "length (resources s') = Suc (length (resources s))"
  proof (cases a)
    case (AKeypress keys)
    with run show ?thesis
      by (auto simp: runAction_def cuKeypress_def Inr_iffs dest!: forEach_invoke_Inr)
  next
    case (ADrag path)
    with run show ?thesis
      by (auto simp: runAction_def cuDrag_def Inr_iffs dest!: forEach_invoke_Inr
            split: list.splits if_splits)
  qed (use run in \<open>auto simp: runAction_def tool_defs Inr_iffs\<close>)
  show "count_list (trace s') (Notification ''notifications/resources/list_changed'') =
        count_list (trace s) (Notification ''notifications/resources/list_changed'')
          + (if getServer e then 1 else 0)"
  proof (cases a)
    case (AKeypress keys)
    with run show ?thesis
      by (auto simp: runAction_def cuKeypress_def Inr_iffs count_list_map_other
            dest!: forEach_invoke_Inr)
  next
    case (ADrag path)
    with run show ?thesis
      by (auto simp: runAction_def cuDrag_def Inr_iffs count_list_map_other
            dest!: forEach_invoke_Inr split: list.splits if_splits)
  qed (use run in \<open>auto simp: runAction_def tool_defs Inr_iffs\<close>)
next
  show "fst (runAction (e\<lparr>notificationSettles := f\<rparr>) a s) = fst (runAction e a s)"
    by (rule settles_irrelevant)
qed

lemma click_example:
  "runAction exampleEnv (AClick 10 20 BLeft) initialState =
     (Inr [TextContent ''Clicked at (10, 20) with left'',
           TextContent ''Screenshot captured: cu-click-2025-01-01T00-00-00.000Z'',
           ImageContent ''iVBORw0KGgo='' ''image/png''],
      \<lparr>trace = [MouseClick 10 20 BLeft, PageScreenshot False,
                 Notification ''notifications/resources/list_changed''],
        resources = [\<lparr>resSession = ''session-1'',
                      resName = ''cu-click-2025-01-01T00-00-00.000Z'',
                      resData = ''iVBORw0KGgo=''\<rparr>],
        unhandled = []\<rparr>)"
  by (simp add: eval_defs)

lemma rejected_notification_example:
  "runAction rejectingEnv (AClick 10 20 BLeft) initialState =
     (Inr [TextContent ''Clicked at (10, 20) with left'',
           TextContent ''Screenshot captured: cu-click-2025-01-01T00-00-00.000Z'',
           ImageContent ''iVBORw0KGgo='' ''image/png''],
      \<lparr>trace = [MouseClick 10 20 BLeft, PageScreenshot False,
                 Notification ''notifications/resources/list_changed''],
        resources = [\<lparr>resSession = ''session-1'',
                      resName = ''cu-click-2025-01-01T00-00-00.000Z'',
                      resData = ''iVBORw0KGgo=''\<rparr>],
        unhandled = [JsError ''Not connected'']\<rparr>)"
  by (simp add: rejectingEnv_def eval_defs)

theorem notification_per_registration_witness:
  "(\<exists>c s'. runAction exampleEnv (AClick 10 20 BLeft) initialState = (Inr c, s') \<and>
      length (resources s') = 1 \<and>
      count_list (trace s') (Notification ''notifications/resources/list_changed'') = 1 \<and>
      fst (runAction rejectingEnv (AClick 10 20 BLeft) initialState) = Inr c)
   \<and> unhandled (snd (runAction rejectingEnv (AClick 10 20 BLeft) initialState)) =
       [JsError ''Not connected'']"
proof -
  note inst = notification_per_registration [where e = exampleEnv and s = initialState
      and a = "AClick 10 20 BLeft" and f = "\<lambda>_. Some (JsError ''Not connected'')"]
  note after = mp [OF inst [THEN conjunct1] click_example]
  have server: "getServer exampleEnv" by (simp add: exampleEnv_def)
  have "length (resources (snd (runAction exampleEnv (AClick 10 20 BLeft) initialState))) = 1"
    using after [THEN conjunct1] unfolding click_example by (simp add: initialState_def)
  moreover have "count_list (trace (snd (runAction exampleEnv (AClick 10 20 BLeft) initialState)))
      (Notification ''notifications/resources/list_changed'') = 1"
    using after [THEN conjunct2] server unfolding click_example by (simp add: initialState_def)
  moreover have "fst (runAction rejectingEnv (AClick 10 20 BLeft) initialState) =
      fst (runAction exampleEnv (AClick 10 20 BLeft) initialState)"
    using inst [THEN conjunct2] by (simp add: rejectingEnv_def)
  ultimately show ?thesis
    by (simp add: click_example rejected_notification_example)
qed

section \<open>Names of the screenshots\<close>

text \<open>
  C5, as stated, makes the names of any two captures of a session distinct. The name is
  the prefix and the clock reading, and the clock counts milliseconds: two click actions
  whose captures fall into the same millisecond register the same name twice.
\<close>

theorem same_millisecond_same_name:
  "map resName (resources (snd (runAction exampleEnv (AClick 30 40 BLeft)
      (snd (runAction exampleEnv (AClick 10 20 BLeft) initialState))))) =
     [''cu-click-2025-01-01T00-00-00.000Z'', ''cu-click-2025-01-01T00-00-00.000Z'']"
  by (simp add: eval_defs)

lemma replaceColons_same_pattern:
  "list_all2 (\<lambda>c p. if p = CHR ''d'' then c \<in> set ''0123456789'' else c = p) t1 pat \<Longrightarrow>
   list_all2 (\<lambda>c p. if p = CHR ''d'' then c \<in> set ''0123456789'' else c = p) t2 pat \<Longrightarrow>
   replaceColons t1 = replaceColons t2 \<Longrightarrow> t1 = t2"
proof (induction pat arbitrary: t1 t2)
  case Nil
  then show ?case by simp
next
  case (Cons p pat)
  from Cons.prems(1) obtain c1 u1 where t1: "t1 = c1 # u1"
    and c1: "if p = CHR ''d'' then c1 \<in> set ''0123456789'' else c1 = p"
    and u1: "list_all2 (\<lambda>c p. if p = CHR ''d'' then c \<in> set ''0123456789'' else c = p) u1 pat"
    by (auto simp: list_all2_Cons2)
  from Cons.prems(2) obtain c2 u2 where t2: "t2 = c2 # u2"
    and c2: "if p = CHR ''d'' then c2 \<in> set ''0123456789'' else c2 = p"
    and u2: "list_all2 (\<lambda>c p. if p = CHR ''d'' then c \<in> set ''0123456789'' else c = p) u2 pat"
    by (auto simp: list_all2_Cons2)
  from Cons.prems(3) t1 t2
  have hd_eq: "(if c1 = CHR '':'' then CHR ''-'' else c1) = (if c2 = CHR '':'' then CHR ''-'' else c2)"
    and tl_eq: "replaceColons u1 = replaceColons u2"
    by (simp_all add: replaceColons_def)
  from c1 c2 hd_eq have "c1 = c2"
    by (cases "p = CHR ''d''") (auto split: if_splits)
  moreover from Cons.IH [OF u1 u2 tl_eq] have "u1 = u2" .
  ultimately show ?case by (simp add: t1 t2)
qed

lemma screenshotName_inject:
  assumes "isoShape t1" and "isoShape t2"
  shows "screenshotName p t1 = screenshotName q t2 \<longleftrightarrow> p = q \<and> t1 = t2"
proof
  assume same: "screenshotName p t1 = screenshotName q t2"
  have "length t1 = length t2"
    using list_all2_lengthD [OF assms(1) [unfolded isoShape_def]]
      list_all2_lengthD [OF assms(2) [unfolded isoShape_def]]
    by simp
  then have "length (CHR ''-'' # replaceColons t1) = length (CHR ''-'' # replaceColons t2)"
    by (simp add: replaceColons_def)
  with same have "p = q" and "replaceColons t1 = replaceColons t2"
    unfolding screenshotName_def by simp_all
  moreover from assms this(2) have "t1 = t2"
    unfolding isoShape_def by (rule replaceColons_same_pattern)
  ultimately show "p = q \<and> t1 = t2" by simp
qed simp

text \<open>
  C5, amended. The names derived at two captures are equal exactly when the captures have
  the same prefix and the clock reads the same millisecond timestamp at both; captures
  that differ in the prefix or in the timestamp get distinct names.
\<close>

theorem capture_names:
  assumes "takeAndRegisterScreenshot e p s = (Inr c, s')"
    and "takeAndRegisterScreenshot e q t = (Inr d, t')"
    and "isoShape (toISOString e (trace s @ [PageScreenshot False]))"
    and "isoShape (toISOString e (trace t @ [PageScreenshot False]))"
  shows "resName (last (resources s')) = resName (last (resources t')) \<longleftrightarrow>
         p = q \<and>
         toISOString e (trace s @ [PageScreenshot False]) =
         toISOString e (trace t @ [PageScreenshot False])"
  using assms by (auto simp: takeAndRegisterScreenshot_Inr_iff screenshotName_inject)

lemma first_capture:
  "takeAndRegisterScreenshot tickingEnv ''cu-click'' initialState =
     (Inr [TextContent ''Screenshot captured: cu-click-2025-01-01T00-00-00.000Z'',
           ImageContent ''iVBORw0KGgo='' ''image/png''],
      \<lparr>trace = [PageScreenshot False, Notification ''notifications/resources/list_changed''],
        resources = [\<lparr>resSession = ''session-1'',
                      resName = ''cu-click-2025-01-01T00-00-00.000Z'',
                      resData = ''iVBORw0KGgo=''\<rparr>],
        unhandled = []\<rparr>)"
  by (simp add: tickingEnv_def eval_defs)

lemma second_capture:
  "takeAndRegisterScreenshot tickingEnv ''cu-click''
      \<lparr>trace = [PageScreenshot False, Notification ''notifications/resources/list_changed''],
        resources = [\<lparr>resSession = ''session-1'',
                      resName = ''cu-click-2025-01-01T00-00-00.000Z'',
                      resData = ''iVBORw0KGgo=''\<rparr>],
        unhandled = []\<rparr> =
     (Inr [TextContent ''Screenshot captured: cu-click-2025-01-01T00-00-00.001Z'',
           ImageContent ''iVBORw0KGgo='' ''image/png''],
      \<lparr>trace = [PageScreenshot False, Notification ''notifications/resources/list_changed'',
                 PageScreenshot False, Notification ''notifications/resources/list_changed''],
        resources = [\<lparr>resSession = ''session-1'',
                      resName = ''cu-click-2025-01-01T00-00-00.000Z'',
                      resData = ''iVBORw0KGgo=''\<rparr>,
                     \<lparr>resSession = ''session-1'',
                      resName = ''cu-click-2025-01-01T00-00-00.001Z'',
                      resData = ''iVBORw0KGgo=''\<rparr>],
        unhandled = []\<rparr>)"
  by (simp add: tickingEnv_def eval_defs)

theorem capture_names_witness:
  "(\<exists>c s' d t'.
      takeAndRegisterScreenshot tickingEnv ''cu-click'' initialState = (Inr c, s') \<and>
      takeAndRegisterScreenshot tickingEnv ''cu-click'' s' = (Inr d, t') \<and>
      isoShape (toISOString tickingEnv (trace initialState @ [PageScreenshot False])) \<and>
      isoShape (toISOString tickingEnv (trace s' @ [PageScreenshot False])) \<and>
      resName (last (resources s')) \<noteq> resName (last (resources t')))"
proof -
  let ?s' = "\<lparr>trace = [PageScreenshot False, Notification ''notifications/resources/list_changed''],
        resources = [\<lparr>resSession = ''session-1'',
                      resName = ''cu-click-2025-01-01T00-00-00.000Z'',
                      resData = ''iVBORw0KGgo=''\<rparr>],
        unhandled = []\<rparr>"
  have first: "isoShape (toISOString tickingEnv (trace initialState @ [PageScreenshot False]))"
    by (simp add: tickingEnv_def exampleEnv_def initialState_def isoShape_def)
  have second: "isoShape (toISOString tickingEnv (trace ?s' @ [PageScreenshot False]))"
    by (simp add: tickingEnv_def exampleEnv_def isoShape_def)
  have differ: "toISOString tickingEnv (trace initialState @ [PageScreenshot False]) \<noteq>
      toISOString tickingEnv (trace ?s' @ [PageScreenshot False])"
    by (simp add: tickingEnv_def exampleEnv_def initialState_def)
  from capture_names [OF first_capture second_capture first second] differ
  have names: "resName (last (resources ?s')) \<noteq>
      resName (last (resources (snd (takeAndRegisterScreenshot tickingEnv ''cu-click'' ?s'))))"
    by (simp add: second_capture)
  show ?thesis
    apply (rule exI, rule exI [of _ ?s'], rule exI,
        rule exI [of _ "snd (takeAndRegisterScreenshot tickingEnv ''cu-click'' ?s')"])
    apply (intro conjI)
        apply (rule first_capture)
       apply (simp add: second_capture)
      apply (rule first)
     apply (rule second)
    apply (rule names)
    done
qed

section \<open>Drag\<close>






section \<open>Wait\<close>

lemma cuWait_Inr:
  assumes "runAction e (AWait ms) s = (Inr c, s')"
  shows "trace s' = trace s @ WaitForTimeout ms # PageScreenshot False #
           (if getServer e then [Notification ''notifications/resources/list_changed''] else [])"
    and "hd c = TextContent (''Waited for '' @ showInt ms @ '' ms'')"
    and "length (resources s') = Suc (length (resources s))"
    and "\<exists>data. ImageContent data ''image/png'' \<in> set c"
  using assms by (auto simp: runAction_def cuWait_def Inr_iffs)

lemma cuWait_trace:
  assumes "runAction e (AWait ms) s = (r, s')"
    and "PageScreenshot False \<in> set (drop (length (trace s)) (trace s'))"
  shows "outcome e (trace s) (WaitForTimeout ms) = None \<and>
         (\<exists>rest. trace s' = trace s @ WaitForTimeout ms # PageScreenshot False # rest)"
proof (cases r)
  case (Inl err)
  with assms show ?thesis
    by (auto simp: runAction_def cuWait_def Inl_iffs Inr_iffs)
next
  case (Inr c)
  with assms show ?thesis
    by (auto simp: runAction_def cuWait_def Inr_iffs)
qed

lemma cuWait_succeeds:
  assumes "getActivePage e = PageOk"
    and "outcome e (trace s) (WaitForTimeout ms) = None"
    and "outcome e (trace s @ [WaitForTimeout ms]) (PageScreenshot False) = None"
  shows "\<exists>c s'. runAction e (AWait ms) s = (Inr c, s')"
  using assms
  by (simp add: runAction_def cuWait_def bindIO_def activePage_def returnIO_def invoke_None
        takeAndRegisterScreenshot_eq)

text \<open>
  C7. With \<^verbatim>\<open>ms\<close> omitted the schema yields 1000, and \<^verbatim>\<open>ms = 0\<close> is accepted. When the
  page is active and neither \<^verbatim>\<open>waitForTimeout\<close> nor the screenshot fails, the wait
  succeeds, for \<^verbatim>\<open>ms = 0\<close> as for any other value. A successful wait has called
  \<^verbatim>\<open>waitForTimeout(ms)\<close> and then taken and registered the screenshot, which is part
  of the result. In any run of the action, a screenshot is only taken after
  \<^verbatim>\<open>waitForTimeout(ms)\<close> has returned.
\<close>

theorem wait_contract:
  "(map_of kvs ''ms'' = None \<longrightarrow>
      inputSchema CuWaitTool (Some (JObject kvs)) = Inr (AWait 1000))
   \<and> (map_of kvs ''ms'' = Some (JNumber 0) \<longrightarrow>
      inputSchema CuWaitTool (Some (JObject kvs)) = Inr (AWait 0))
   \<and> (getActivePage e = PageOk \<and> outcome e (trace s) (WaitForTimeout ms) = None \<and>
        outcome e (trace s @ [WaitForTimeout ms]) (PageScreenshot False) = None \<longrightarrow>
      (\<exists>c s'. runAction e (AWait ms) s = (Inr c, s')))
   \<and> (runAction e (AWait ms) s = (Inr c, s') \<longrightarrow>
      trace s' = trace s @ WaitForTimeout ms # PageScreenshot False #
        (if getServer e then [Notification ''notifications/resources/list_changed''] else []) \<and>
      hd c = TextContent (''Waited for '' @ showInt ms @ '' ms'') \<and>
      length (resources s') = Suc (length (resources s)) \<and>
      (\<exists>data. ImageContent data ''image/png'' \<in> set c))
   \<and> (runAction e (AWait ms) s = (r, s'') \<and>
        PageScreenshot False \<in> set (drop (length (trace s)) (trace s'')) \<longrightarrow>
      outcome e (trace s) (WaitForTimeout ms) = None \<and>
      (\<exists>rest. trace s'' = trace s @ WaitForTimeout ms # PageScreenshot False # rest))"
proof (intro conjI impI)
  assume "map_of kvs ''ms'' = None"
  then show "inputSchema CuWaitTool (Some (JObject kvs)) = Inr (AWait 1000)"
    by (simp add: inputSchema_def CuWaitInputSchema_def zObject_def zDefault_def zInt_def
          andThen_def)
next
  assume "map_of kvs ''ms'' = Some (JNumber 0)"
  then show "inputSchema CuWaitTool (Some (JObject kvs)) = Inr (AWait 0)"
    by (simp add: inputSchema_def CuWaitInputSchema_def zObject_def zDefault_def zInt_def
          andThen_def)
next
  assume "getActivePage e = PageOk \<and> outcome e (trace s) (WaitForTimeout ms) = None \<and>
        outcome e (trace s @ [WaitForTimeout ms]) (PageScreenshot False) = None"
  then show "\<exists>c s'. runAction e (AWait ms) s = (Inr c, s')"
    by (simp add: cuWait_succeeds)
next
  assume run: "runAction e (AWait ms) s = (Inr c, s')"
  show "trace s' = trace s @ WaitForTimeout ms # PageScreenshot False #
        (if getServer e then [Notification ''notifications/resources/list_changed''] else [])"
    by (rule cuWait_Inr(1) [OF run])
  show "hd c = TextContent (''Waited for '' @ showInt ms @ '' ms'')"
    by (rule cuWait_Inr(2) [OF run])
  show "length (resources s') = Suc (length (resources s))"
    by (rule cuWait_Inr(3) [OF run])
  show "\<exists>data. ImageContent data ''image/png'' \<in> set c"
    by (rule cuWait_Inr(4) [OF run])
next
  assume h: "runAction e (AWait ms) s = (r, s'') \<and>
        PageScreenshot False \<in> set (drop (length (trace s)) (trace s''))"
  from cuWait_trace [OF conjunct1 [OF h] conjunct2 [OF h]]
  show "outcome e (trace s) (WaitForTimeout ms) = None"
    and "\<exists>rest. trace s'' = trace s @ WaitForTimeout ms # PageScreenshot False # rest"
    by (rule conjunct1, rule conjunct2)
qed

theorem wait_contract_witness:
  "inputSchema CuWaitTool (Some (JObject [])) = Inr (AWait 1000)
   \<and> inputSchema CuWaitTool (Some (JObject [(''ms'', JNumber 0)])) = Inr (AWait 0)
   \<and> (\<exists>c s'. runAction exampleEnv (AWait 0) initialState = (Inr c, s') \<and>
         trace s' = [WaitForTimeout 0, PageScreenshot False,
                     Notification ''notifications/resources/list_changed''] \<and>
         hd c = TextContent ''Waited for 0 ms'' \<and>
         length (resources s') = 1 \<and>
         outcome exampleEnv (trace initialState) (WaitForTimeout 0) = None)"
proof -
  have env: "getActivePage exampleEnv = PageOk" "\<And>h k. outcome exampleEnv h k = None"
    "getServer exampleEnv"
    by (simp_all add: exampleEnv_def)
  have omitted: "inputSchema CuWaitTool (Some (JObject [])) = Inr (AWait 1000)"
    using wait_contract [where kvs = "[]", THEN conjunct1] by simp
  have zero: "inputSchema CuWaitTool (Some (JObject [(''ms'', JNumber 0)])) = Inr (AWait 0)"
    using wait_contract [where kvs = "[(''ms'', JNumber 0)]", THEN conjunct2, THEN conjunct1]
    by simp
  have "getActivePage exampleEnv = PageOk \<and>
        outcome exampleEnv (trace initialState) (WaitForTimeout 0) = None \<and>
        outcome exampleEnv (trace initialState @ [WaitForTimeout 0]) (PageScreenshot False) = None"
    by (simp add: env)
  from mp [OF wait_contract [where e = exampleEnv and s = initialState and ms = 0,
        THEN conjunct2, THEN conjunct2, THEN conjunct1] this]
  obtain c s' where run: "runAction exampleEnv (AWait 0) initialState = (Inr c, s')"
    by (elim exE)
  note after = mp [OF wait_contract [where e = exampleEnv and s = initialState and ms = 0
        and c = c and s' = s', THEN conjunct2, THEN conjunct2, THEN conjunct2, THEN conjunct1] run]
  have "trace s' = [WaitForTimeout 0, PageScreenshot False,
                     Notification ''notifications/resources/list_changed'']"
    using after [THEN conjunct1] by (simp add: env initialState_def)
  moreover have "hd c = TextContent ''Waited for 0 ms''"
    using after [THEN conjunct2, THEN conjunct1]
    by (simp add: showInt_def showNat.simps digitChar_def)
  moreover have "length (resources s') = 1"
    using after [THEN conjunct2, THEN conjunct2, THEN conjunct1] by (simp add: initialState_def)
  moreover have "outcome exampleEnv (trace initialState) (WaitForTimeout 0) = None"
  proof -
    have "PageScreenshot False \<in> set (drop (length (trace initialState)) (trace s'))"
      using after [THEN conjunct1] by (simp add: initialState_def)
    with run have "runAction exampleEnv (AWait 0) initialState = (Inr c, s') \<and>
        PageScreenshot False \<in> set (drop (length (trace initialState)) (trace s'))"
      by (rule conjI)
    from mp [OF wait_contract [where e = exampleEnv and s = initialState and ms = 0
        and r = "Inr c" and s'' = s', THEN conjunct2, THEN conjunct2, THEN conjunct2,
        THEN conjunct2] this]
    show ?thesis by (rule conjunct1)
  qed
  ultimately have "\<exists>c s'. runAction exampleEnv (AWait 0) initialState = (Inr c, s') \<and>
         trace s' = [WaitForTimeout 0, PageScreenshot False,
                     Notification ''notifications/resources/list_changed''] \<and>
         hd c = TextContent ''Waited for 0 ms'' \<and>
         length (resources s') = 1 \<and>
         outcome exampleEnv (trace initialState) (WaitForTimeout 0) = None"
    using run by blast
  with omitted zero show ?thesis by simp
qed

section \<open>Click\<close>






section \<open>Keypress\<close>

lemma cuKeypress_Inr:
  assumes "runAction e (AKeypress keys) s = (Inr c, s')"
  shows "trace s' = trace s @ map KeyboardPress keys @ PageScreenshot False #
           (if getServer e then [Notification ''notifications/resources/list_changed''] else [])"
    and "hd c = TextContent (''Pressed keys: '' @ join '', '' keys)"
  using assms
  by (auto simp: runAction_def cuKeypress_def Inr_iffs dest!: forEach_invoke_Inr)

lemma cuKeypress_succeeds:
  assumes "getActivePage e = PageOk" and "\<forall>h k. outcome e h k = None"
  shows "\<exists>c s'. runAction e (AKeypress keys) s = (Inr c, s')"
  using assms
  by (simp add: runAction_def cuKeypress_def bindIO_def tryCatch_def activePage_def returnIO_def
        forEach_invoke_ok takeAndRegisterScreenshot_eq)

text \<open>
  C9. An empty list of keys is rejected by the schema, before the action runs and with the
  state untouched; a non-empty list of strings is accepted as it is, in order. A
  successful keypress has called \<^verbatim>\<open>keyboard.press\<close> once for each key of the list, in
  list order, and then taken the screenshot. When the page is active and no call fails,
  the keypress succeeds.
\<close>

theorem keypress_contract:
  "(map_of kvs ''keys'' = Some (JArray []) \<longrightarrow>
      callTool e CuKeypressTool (Some (JObject kvs)) s = (Inl (ValidationError TooSmall), s))
   \<and> (map_of kvs ''keys'' = Some (JArray (map JString keys)) \<and> keys \<noteq> [] \<longrightarrow>
      inputSchema CuKeypressTool (Some (JObject kvs)) = Inr (AKeypress keys))
   \<and> (callTool e CuKeypressTool arguments s = (Inr c, s') \<longrightarrow>
      (\<exists>pressed. pressed \<noteq> [] \<and>
         inputSchema CuKeypressTool arguments = Inr (AKeypress pressed) \<and>
         trace s' = trace s @ map KeyboardPress pressed @ PageScreenshot False #
           (if getServer e then [Notification ''notifications/resources/list_changed''] else []) \<and>
         hd c = TextContent (''Pressed keys: '' @ join '', '' pressed)))
   \<and> (inputSchema CuKeypressTool arguments = Inr (AKeypress keys) \<and> getActivePage e = PageOk \<and>
        (\<forall>h k. outcome e h k = None) \<longrightarrow>
      (\<exists>c s'. callTool e CuKeypressTool arguments s = (Inr c, s')))"
proof (intro conjI impI)
  assume "map_of kvs ''keys'' = Some (JArray [])"
  then show "callTool e CuKeypressTool (Some (JObject kvs)) s = (Inl (ValidationError TooSmall), s)"
    by (simp add: callTool_def inputSchema_def CuKeypressInputSchema_def zObject_def
          zArrayMin_def andThen_def)
next
  assume "map_of kvs ''keys'' = Some (JArray (map JString keys)) \<and> keys \<noteq> []"
  then show "inputSchema CuKeypressTool (Some (JObject kvs)) = Inr (AKeypress keys)"
    by (simp add: inputSchema_def CuKeypressInputSchema_def zObject_def zArrayMin_def
          andThen_def zElements_zString)
next
  assume "callTool e CuKeypressTool arguments s = (Inr c, s')"
  then obtain a where a: "inputSchema CuKeypressTool arguments = Inr a"
    and run: "runAction e a s = (Inr c, s')"
    by (auto simp: callTool_Inr_iff)
  from a obtain pressed where pressed: "pressed \<noteq> []" "a = AKeypress pressed"
    using CuKeypressInputSchema_Inr [of arguments a] by (auto simp: inputSchema_def)
  from pressed a run cuKeypress_Inr [of e pressed s c s']
  have found: "pressed \<noteq> [] \<and>
         inputSchema CuKeypressTool arguments = Inr (AKeypress pressed) \<and>
         trace s' = trace s @ map KeyboardPress pressed @ PageScreenshot False #
           (if getServer e then [Notification ''notifications/resources/list_changed''] else []) \<and>
         hd c = TextContent (''Pressed keys: '' @ join '', '' pressed)"
    by simp
  show "\<exists>pressed. pressed \<noteq> [] \<and>
         inputSchema CuKeypressTool arguments = Inr (AKeypress pressed) \<and>
         trace s' = trace s @ map KeyboardPress pressed @ PageScreenshot False #
           (if getServer e then [Notification ''notifications/resources/list_changed''] else []) \<and>
         hd c = TextContent (''Pressed keys: '' @ join '', '' pressed)"
    by (rule exI [of _ pressed]) (rule found)
next
  assume h: "inputSchema CuKeypressTool arguments = Inr (AKeypress keys) \<and>
        getActivePage e = PageOk \<and> (\<forall>h k. outcome e h k = None)"
  with cuKeypress_succeeds [of e keys s]
  show "\<exists>c s'. callTool e CuKeypressTool arguments s = (Inr c, s')"
    by (auto simp: callTool_def)
qed

lemma keypress_parse_example:
  "inputSchema CuKeypressTool keypressArguments = Inr (AKeypress [''Shift+Tab'', ''Enter''])"
  by (simp add: keypressArguments_def schema_defs)

theorem keypress_contract_witness:
  "callTool exampleEnv CuKeypressTool (Some (JObject [(''keys'', JArray [])])) initialState
     = (Inl (ValidationError TooSmall), initialState)
   \<and> inputSchema CuKeypressTool keypressArguments = Inr (AKeypress [''Shift+Tab'', ''Enter''])
   \<and> (\<exists>c s'. callTool exampleEnv CuKeypressTool keypressArguments initialState = (Inr c, s') \<and>
         trace s' = [KeyboardPress ''Shift+Tab'', KeyboardPress ''Enter'', PageScreenshot False,
                     Notification ''notifications/resources/list_changed''] \<and>
         hd c = TextContent ''Pressed keys: Shift+Tab, Enter'')"
proof -
  note inst = keypress_contract [where e = exampleEnv and s = initialState
      and kvs = "[(''keys'', JArray [])]" and arguments = keypressArguments
      and keys = "[''Shift+Tab'', ''Enter'']"]
  have env: "getActivePage exampleEnv = PageOk" "\<forall>h k. outcome exampleEnv h k = None"
    "getServer exampleEnv"
    by (simp_all add: exampleEnv_def)
  have empty: "callTool exampleEnv CuKeypressTool (Some (JObject [(''keys'', JArray [])]))
      initialState = (Inl (ValidationError TooSmall), initialState)"
    using inst [THEN conjunct1] by simp
  have "inputSchema CuKeypressTool keypressArguments = Inr (AKeypress [''Shift+Tab'', ''Enter'']) \<and>
        getActivePage exampleEnv = PageOk \<and> (\<forall>h k. outcome exampleEnv h k = None)"
    by (intro conjI) (rule keypress_parse_example, rule env(1), rule env(2))
  from mp [OF inst [THEN conjunct2, THEN conjunct2, THEN conjunct2] this]
  obtain c s' where
    run: "callTool exampleEnv CuKeypressTool keypressArguments initialState = (Inr c, s')"
    by (elim exE)
  from mp [OF inst [of c s', THEN conjunct2, THEN conjunct2, THEN conjunct1] run]
  obtain pressed where all: "pressed \<noteq> [] \<and>
         inputSchema CuKeypressTool keypressArguments = Inr (AKeypress pressed) \<and>
         trace s' = trace initialState @ map KeyboardPress pressed @ PageScreenshot False #
           (if getServer exampleEnv then [Notification ''notifications/resources/list_changed'']
            else []) \<and>
         hd c = TextContent (''Pressed keys: '' @ join '', '' pressed)"
    by (elim exE)
  note parsed = all [THEN conjunct2, THEN conjunct1]
  note tr = all [THEN conjunct2, THEN conjunct2, THEN conjunct1]
  note descr = all [THEN conjunct2, THEN conjunct2, THEN conjunct2]
  from parsed keypress_parse_example have p: "pressed = [''Shift+Tab'', ''Enter'']" by simp
  have "trace s' = [KeyboardPress ''Shift+Tab'', KeyboardPress ''Enter'', PageScreenshot False,
                     Notification ''notifications/resources/list_changed'']"
    unfolding tr p by (simp add: env initialState_def)
  moreover have "hd c = TextContent ''Pressed keys: Shift+Tab, Enter''"
    unfolding descr p by simp
  ultimately have "\<exists>c s'. callTool exampleEnv CuKeypressTool keypressArguments initialState
           = (Inr c, s') \<and>
         trace s' = [KeyboardPress ''Shift+Tab'', KeyboardPress ''Enter'', PageScreenshot False,
                     Notification ''notifications/resources/list_changed''] \<and>
         hd c = TextContent ''Pressed keys: Shift+Tab, Enter''"
    using run by blast
  with empty keypress_parse_example show ?thesis by simp
qed

section \<open>No server registered\<close>

text \<open>Whether or not a server is registered, the action returns the same result or error.\<close>

lemma server_irrelevant:
  "fst (runAction (e\<lparr>getServer := g\<rparr>) a s) = fst (runAction e a s)"
proof (cases a)
  case (AKeypress keys)
  obtain r s1 where "forEach keys (\<lambda>key. invoke e (KeyboardPress key)) s = (r, s1)"
    by (cases "forEach keys (\<lambda>key. invoke e (KeyboardPress key)) s")
  with AKeypress show ?thesis
    by (cases r)
      (simp_all add: runAction_def cuKeypress_def io_defs takeAndRegisterScreenshot_eq
        split: page_result.splits option.splits)
next
  case (ADrag path)
  show ?thesis
  proof (cases path)
    case Nil
    with ADrag show ?thesis
      by (simp add: runAction_def cuDrag_def io_defs split: page_result.splits)
  next
    case (Cons start rest)
    obtain r s1 where
      "forEach rest (\<lambda>pt. invoke e (MouseMove (ptX pt) (ptY pt)))
         (s\<lparr>trace := trace s @ [MouseMove (ptX start) (ptY start), MouseDown]\<rparr>) = (r, s1)"
      by (cases "forEach rest (\<lambda>pt. invoke e (MouseMove (ptX pt) (ptY pt)))
         (s\<lparr>trace := trace s @ [MouseMove (ptX start) (ptY start), MouseDown]\<rparr>)")
    with ADrag Cons show ?thesis
      by (cases r)
        (simp_all add: runAction_def cuDrag_def io_defs takeAndRegisterScreenshot_eq
          split: page_result.splits option.splits)
  qed
qed (simp_all add: runAction_def tool_defs io_defs takeAndRegisterScreenshot_eq
       split: page_result.splits option.splits)

text \<open>
  C10. When \<^verbatim>\<open>context.getServer()\<close> returns null, a successful action has still taken
  the screenshot (it is the last call made), has registered it under the current session
  id, and returns the full result: the text naming the registered screenshot and its
  image, after the descriptive text for every action but the screenshot action. It is
  the same result as with a server registered. No notification is sent, and no rejected
  promise is left behind.
\<close>

theorem no_server_contract:
  assumes "\<not> getServer e" and "runAction e a s = (Inr c, s')"
  shows "last (trace s') = PageScreenshot False
    \<and> (\<forall>m. Notification m \<notin> set (drop (length (trace s)) (trace s')))
    \<and> unhandled s' = unhandled s
    \<and> (\<exists>nm dat.
          resources s' = resources s @
            [\<lparr>resSession = currentSessionId e, resName = nm, resData = dat\<rparr>] \<and>
          (if a = AScreenshot
           then c = [TextContent (''Screenshot captured: '' @ nm), ImageContent dat ''image/png'']
           else \<exists>d. c = [TextContent d, TextContent (''Screenshot captured: '' @ nm),
                          ImageContent dat ''image/png'']))
    \<and> fst (runAction (e\<lparr>getServer := True\<rparr>) a s) = Inr c"
proof -
  have "fst (runAction (e\<lparr>getServer := True\<rparr>) a s) = Inr c"
    using server_irrelevant [where e = e and g = True and a = a and s = s] assms(2) by simp
  moreover have "last (trace s') = PageScreenshot False
    \<and> (\<forall>m. Notification m \<notin> set (drop (length (trace s)) (trace s')))
    \<and> unhandled s' = unhandled s
    \<and> (\<exists>nm dat.
          resources s' = resources s @
            [\<lparr>resSession = currentSessionId e, resName = nm, resData = dat\<rparr>] \<and>
          (if a = AScreenshot
           then c = [TextContent (''Screenshot captured: '' @ nm), ImageContent dat ''image/png'']
           else \<exists>d. c = [TextContent d, TextContent (''Screenshot captured: '' @ nm),
                          ImageContent dat ''image/png'']))"
  proof (cases a)
    case (AKeypress keys)
    with assms show ?thesis
      by (auto simp: runAction_def cuKeypress_def Inr_iffs dest!: forEach_invoke_Inr)
  next
    case (ADrag path)
    with assms show ?thesis
      by (auto simp: runAction_def cuDrag_def Inr_iffs dest!: forEach_invoke_Inr
            split: list.splits if_splits)
  qed (use assms in \<open>auto simp: runAction_def tool_defs Inr_iffs\<close>)
  ultimately show ?thesis by simp
qed

theorem no_server_contract_witness:
  "\<not> getServer (exampleEnv\<lparr>getServer := False\<rparr>)
   \<and> runAction (exampleEnv\<lparr>getServer := False\<rparr>) (AType ''hello'' None) initialState =
      (Inr [TextContent ''Typed 5 characters'',
            TextContent ''Screenshot captured: cu-type-2025-01-01T00-00-00.000Z'',
            ImageContent ''iVBORw0KGgo='' ''image/png''],
       \<lparr>trace = [KeyboardType ''hello'' None, PageScreenshot False],
         resources = [\<lparr>resSession = ''session-1'',
                       resName = ''cu-type-2025-01-01T00-00-00.000Z'',
                       resData = ''iVBORw0KGgo=''\<rparr>],
         unhandled = []\<rparr>)
   \<and> (\<forall>m. Notification m \<notin> set [KeyboardType ''hello'' None, PageScreenshot False])
   \<and> fst (runAction exampleEnv (AType ''hello'' None) initialState) =
      Inr [TextContent ''Typed 5 characters'',
           TextContent ''Screenshot captured: cu-type-2025-01-01T00-00-00.000Z'',
           ImageContent ''iVBORw0KGgo='' ''image/png'']"
proof -
  have server: "\<not> getServer (exampleEnv\<lparr>getServer := False\<rparr>)"
    by simp
  have run: "runAction (exampleEnv\<lparr>getServer := False\<rparr>) (AType ''hello'' None) initialState =
      (Inr [TextContent ''Typed 5 characters'',
            TextContent ''Screenshot captured: cu-type-2025-01-01T00-00-00.000Z'',
            ImageContent ''iVBORw0KGgo='' ''image/png''],
       \<lparr>trace = [KeyboardType ''hello'' None, PageScreenshot False],
         resources = [\<lparr>resSession = ''session-1'',
                       resName = ''cu-type-2025-01-01T00-00-00.000Z'',
                       resData = ''iVBORw0KGgo=''\<rparr>],
         unhandled = []\<rparr>)"
    by (simp add: eval_defs)
  from no_server_contract [OF server run, THEN conjunct2, THEN conjunct1]
  have "\<forall>m. Notification m \<notin> set [KeyboardType ''hello'' None, PageScreenshot False]"
    by (simp add: initialState_def)
  moreover from no_server_contract [OF server run, THEN conjunct2, THEN conjunct2,
      THEN conjunct2, THEN conjunct2]
  have "fst (runAction exampleEnv (AType ''hello'' None) initialState) =
      Inr [TextContent ''Typed 5 characters'',
           TextContent ''Screenshot captured: cu-type-2025-01-01T00-00-00.000Z'',
           ImageContent ''iVBORw0KGgo='' ''image/png'']"
    by (simp add: exampleEnv_def)
  ultimately show ?thesis using server run by simp
qed

end
